theory Spec2Isabelle
  imports Main
begin

section \<open>JavaScript values and property keys\<close>

text \<open>
  The cells of a Looker Studio row are JavaScript primitives. \<open>Num n\<close> stands for the
  number whose value is the integer \<open>n\<close>, within the safe-integer range, where the
  decimal digits are what JavaScript prints; fractions, NaN and the infinities are not
  represented. A string is a sequence of characters that the program never inspects.
\<close>

datatype cell = Undefined | Null | Bool bool | Num int | Str string

definition digit_char :: "nat \<Rightarrow> char" where
  "digit_char d = ''0123456789'' ! (d mod 10)"

function show_nat :: "nat \<Rightarrow> string" where
  "show_nat n = (if n < 10 then [digit_char n] else show_nat (n div 10) @ [digit_char (n mod 10)])"
  by pat_completeness auto
termination
  by (relation "measure id") auto

declare show_nat.simps [simp del]

text \<open>
  \<open>toString\<close> is the conversion that a template literal \<open>${v}\<close> and a computed
  property access \<open>obj[v]\<close> both apply to a primitive.
\<close>

fun toString :: "cell \<Rightarrow> string" where
  "toString Undefined = ''undefined''"
| "toString Null = ''null''"
| "toString (Bool b) = (if b then ''true'' else ''false'')"
| "toString (Num n) = (if n < 0 then CHR ''-'' # show_nat (nat (- n)) else show_nat (nat n))"
| "toString (Str s) = s"

text \<open>
  A property key is an array index when it is the canonical decimal form of an integer
  between 0 and \<open>2^32 - 2\<close>. An ordinary object lists such keys first, in ascending
  numeric order, and every other string key after them in the order of creation; that is
  the order of \<open>for ... in\<close> and of \<open>Object.entries\<close>.
\<close>

definition is_digit :: "char \<Rightarrow> bool" where
  "is_digit c = (c \<in> set ''0123456789'')"

definition digit_val :: "char \<Rightarrow> nat" where
  "digit_val c = of_char c - 48"

definition index_value :: "string \<Rightarrow> nat" where
  "index_value s = foldl (\<lambda>n c. 10 * n + digit_val c) 0 s"

definition is_array_index :: "string \<Rightarrow> bool" where
  "is_array_index s =
     (case s of
        [] \<Rightarrow> False
      | c # cs \<Rightarrow> list_all is_digit s \<and> (if c = CHR ''0'' then cs = [] else True)
                  \<and> index_value s < 4294967295)"

type_synonym 'v obj = "(string \<times> 'v) list"

definition own_entries :: "'v obj \<Rightarrow> (string \<times> 'v) list" where
  "own_entries obj =
     sort_key (\<lambda>(k, v). index_value k) (filter (\<lambda>(k, v). is_array_index k) obj)
     @ filter (\<lambda>(k, v). \<not> is_array_index k) obj"

text \<open>
  An object literal \<open>{}\<close> inherits from \<open>Object.prototype\<close>. Reading one of the names
  below on an object that has no own property of that name gives the inherited built-in
  (a function, or \<open>Object.prototype\<close> itself for \<open>__proto__\<close>): a truthy value that is
  neither a plain object made by this program nor an array. The model assumes that the
  built-in objects are as the language defines them when a draw starts: in particular
  \<open>Object.prototype\<close> has no enumerable property and no property \<open>push\<close>.
\<close>

definition object_prototype_names :: "string list" where
  "object_prototype_names =
     [''constructor'', ''__proto__'', ''hasOwnProperty'', ''isPrototypeOf'',
      ''propertyIsEnumerable'', ''toLocaleString'', ''toString'', ''valueOf'',
      ''__defineGetter__'', ''__defineSetter__'', ''__lookupGetter__'', ''__lookupSetter__'']"

datatype 'v property = Own 'v | Inherited | Missing

definition get_prop :: "'v obj \<Rightarrow> string \<Rightarrow> 'v property" where
  "get_prop obj k =
     (case map_of obj k of
        Some v \<Rightarrow> Own v
      | None \<Rightarrow> if k \<in> set object_prototype_names then Inherited else Missing)"

text \<open>Assignment \<open>obj[k] = v\<close>: an own property keeps its place, a new one goes last.\<close>

primrec obj_set :: "string \<Rightarrow> 'v \<Rightarrow> 'v obj \<Rightarrow> 'v obj" where
  "obj_set k v [] = [(k, v)]"
| "obj_set k v (p # ps) = (if fst p = k then (k, v) # ps else p # obj_set k v ps)"

text \<open>
  A run returns, throws, or leaves the modelled fragment: \<open>Escapes\<close> stands for a run
  that goes on to read and write the properties of a built-in object, where what happens
  next depends on the state of the whole JavaScript realm.
\<close>

datatype js_error = Push_is_not_a_function

datatype 'a outcome = Returns 'a | Throws js_error | Escapes


section \<open>index.js: flat rows and a field list\<close>

subsection \<open>organizeData\<close>

record field =
  field_id :: cell

record swimmer =
  Lane :: cell
  Name :: cell
  Age :: cell
  Academy :: cell

type_synonym heats = "swimmer list obj"
type_synonym organized = "heats obj"

text \<open>
  \<open>fieldMap[field.id] = index\<close>. Assigning a number to \<open>__proto__\<close> changes nothing; any
  other key becomes an own property, the last assignment winning.
\<close>

definition fieldMap_set :: "(string \<rightharpoonup> nat) \<Rightarrow> string \<Rightarrow> nat \<Rightarrow> (string \<rightharpoonup> nat)" where
  "fieldMap_set fieldMap k index = (if k = ''__proto__'' then fieldMap else fieldMap(k \<mapsto> index))"

fun fields_forEach :: "(string \<rightharpoonup> nat) \<Rightarrow> nat \<Rightarrow> field list \<Rightarrow> (string \<rightharpoonup> nat)" where
  "fields_forEach fieldMap index [] = fieldMap"
| "fields_forEach fieldMap index (f # fs) =
     fields_forEach (fieldMap_set fieldMap (toString (field_id f)) index) (Suc index) fs"

text \<open>\<open>row[fieldMap.RACE]\<close>: an index that is undefined or past the end reads undefined.\<close>

definition cell_at :: "cell list \<Rightarrow> nat option \<Rightarrow> cell" where
  "cell_at row idx =
     (case idx of None \<Rightarrow> Undefined | Some i \<Rightarrow> if i < length row then row ! i else Undefined)"

definition raceName_of :: "(string \<rightharpoonup> nat) \<Rightarrow> cell list \<Rightarrow> string" where
  "raceName_of fieldMap row = toString (cell_at row (fieldMap ''RACE''))"

definition heatName_of :: "(string \<rightharpoonup> nat) \<Rightarrow> cell list \<Rightarrow> string" where
  "heatName_of fieldMap row = toString (cell_at row (fieldMap ''HEAT''))"

definition swimmer_of :: "(string \<rightharpoonup> nat) \<Rightarrow> cell list \<Rightarrow> swimmer" where
  "swimmer_of fieldMap row =
     \<lparr>Lane = cell_at row (fieldMap ''LANE''), Name = cell_at row (fieldMap ''NAME''),
      Age = cell_at row (fieldMap ''AGEGROUP''), Academy = cell_at row (fieldMap ''ACADEMY'')\<rparr>"

text \<open>
  The second half of the loop body: \<open>heats\<close> is the object \<open>organized[raceName]\<close>.
  An inherited \<open>organized[raceName][heatName]\<close> is truthy, so no array is stored, and it
  has no \<open>push\<close>: the call throws a TypeError.
\<close>

definition push_swimmer :: "organized \<Rightarrow> string \<Rightarrow> heats \<Rightarrow> string \<Rightarrow> swimmer \<Rightarrow> organized outcome" where
  "push_swimmer organized raceName heats heatName s =
     (case get_prop heats heatName of
        Inherited \<Rightarrow> Throws Push_is_not_a_function
      | Missing \<Rightarrow> Returns (obj_set raceName (heats @ [(heatName, [s])]) organized)
      | Own swimmers \<Rightarrow>
          Returns (obj_set raceName (obj_set heatName (swimmers @ [s]) heats) organized))"

text \<open>
  The loop body. An inherited \<open>organized[raceName]\<close> is truthy, so no own property is
  created and the next statements work on the built-in object itself.
\<close>

definition organize_row :: "(string \<rightharpoonup> nat) \<Rightarrow> organized \<Rightarrow> cell list \<Rightarrow> organized outcome" where
  "organize_row fieldMap organized row =
     (let raceName = raceName_of fieldMap row;
          heatName = heatName_of fieldMap row;
          s = swimmer_of fieldMap row
      in case get_prop organized raceName of
           Inherited \<Rightarrow> Escapes
         | Missing \<Rightarrow> push_swimmer (organized @ [(raceName, [])]) raceName [] heatName s
         | Own heats \<Rightarrow> push_swimmer organized raceName heats heatName s)"

fun data_forEach :: "(string \<rightharpoonup> nat) \<Rightarrow> organized \<Rightarrow> cell list list \<Rightarrow> organized outcome" where
  "data_forEach fieldMap organized [] = Returns organized"
| "data_forEach fieldMap organized (row # rows) =
     (case organize_row fieldMap organized row of
        Returns organized' \<Rightarrow> data_forEach fieldMap organized' rows
      | Throws e \<Rightarrow> Throws e
      | Escapes \<Rightarrow> Escapes)"

definition organizeData :: "cell list list \<Rightarrow> field list \<Rightarrow> organized outcome" where
  "organizeData data field_list = data_forEach (fields_forEach Map.empty 0 field_list) [] data"


subsection \<open>generateHtmlTables\<close>

text \<open>The template literals, with their line breaks and indentation.\<close>

definition indent :: "nat \<Rightarrow> string" where
  "indent n = CHR ''\<newline>'' # replicate n CHR '' ''"

definition race_open :: "string \<Rightarrow> string" where
  "race_open raceName =
     indent 12 @ ''<div class=\"race-container\">''
     @ indent 16 @ ''<h2 class=\"race-title\">'' @ raceName @ ''</h2>'' @ indent 8"

definition th_class :: string where
  "th_class = ''py-2 px-4 border-b text-left text-sm font-semibold text-gray-600''"

definition th :: "string \<Rightarrow> string \<Rightarrow> string" where
  "th cls label = ''<th class=\"'' @ cls @ ''\">'' @ label @ ''</th>''"

definition table_head :: string where
  "table_head =
     indent 28 @ ''<thead>'' @ indent 32 @ ''<tr>''
     @ indent 36 @ th (th_class @ '' rounded-tl-md'') ''Lane''
     @ indent 36 @ th th_class ''Swimmer''
     @ indent 36 @ th th_class ''Age Group''
     @ indent 36 @ th (th_class @ '' rounded-tr-md'') ''Academy''
     @ indent 32 @ ''</tr>'' @ indent 28 @ ''</thead>''"

definition heat_open :: "string \<Rightarrow> string" where
  "heat_open heatName =
     indent 16 @ ''<div class=\"heat-container\">''
     @ indent 20 @ ''<h3 class=\"heat-title\">'' @ heatName @ ''</h3>''
     @ indent 20 @ ''<div class=\"overflow-x-auto\">''
     @ indent 24 @ ''<table class=\"data-table\">''
     @ table_head @ indent 28 @ ''<tbody>'' @ indent 12"

definition td_class :: string where
  "td_class = ''py-2 px-4 border-b border-gray-200 text-sm text-gray-800''"

definition td :: "string \<Rightarrow> string \<Rightarrow> string" where
  "td cls v = ''<td class=\"'' @ cls @ ''\">'' @ v @ ''</td>''"

definition stripe :: "nat \<Rightarrow> string" where
  "stripe index = (if index mod 2 = 0 then ''bg-white'' else ''bg-gray-50'')"

definition swimmer_row :: "nat \<Rightarrow> swimmer \<Rightarrow> string" where
  "swimmer_row index s =
     indent 32 @ ''<tr class=\"'' @ stripe index
       @ '' hover:bg-gray-100 transition-colors duration-200\">''
     @ indent 36 @ td (td_class @ '' rounded-bl-md'') (toString (Lane s))
     @ indent 36 @ td td_class (toString (Name s))
     @ indent 36 @ td td_class (toString (Age s))
     @ indent 36 @ td (td_class @ '' rounded-br-md'') (toString (Academy s))
     @ indent 32 @ ''</tr>'' @ indent 16"

definition heat_close :: string where
  "heat_close =
     indent 28 @ ''</tbody>'' @ indent 24 @ ''</table>''
     @ indent 20 @ ''</div>'' @ indent 16 @ ''</div>'' @ indent 12"

definition race_close :: string where
  "race_close = ''</div>''"

text \<open>The three nested loops, each appending to \<open>html\<close>.\<close>

fun swimmers_forEach :: "string \<Rightarrow> nat \<Rightarrow> swimmer list \<Rightarrow> string" where
  "swimmers_forEach html index [] = html"
| "swimmers_forEach html index (s # rest) =
     swimmers_forEach (html @ swimmer_row index s) (Suc index) rest"

fun heats_for_in :: "string \<Rightarrow> (string \<times> swimmer list) list \<Rightarrow> string" where
  "heats_for_in html [] = html"
| "heats_for_in html ((heatName, swimmers) # rest) =
     heats_for_in (swimmers_forEach (html @ heat_open heatName) 0 swimmers @ heat_close) rest"

fun races_for_in :: "string \<Rightarrow> (string \<times> heats) list \<Rightarrow> string" where
  "races_for_in html [] = html"
| "races_for_in html ((raceName, heats) # rest) =
     races_for_in (heats_for_in (html @ race_open raceName) (own_entries heats) @ race_close) rest"

definition generateHtmlTables :: "organized \<Rightarrow> string" where
  "generateHtmlTables organizedData = races_for_in [] (own_entries organizedData)"

subsection \<open>drawViz\<close>

text \<open>
  The message always carries \<open>data.tables\<close> and \<open>data.fields\<close>; their \<open>DEFAULT\<close>
  entries may be undefined (\<open>None\<close>). The container is the element \<open>vis-container\<close>,
  which the page provides. The text of \<open>error.message\<close> is chosen by the JavaScript
  engine, so it is a parameter.
\<close>

record message =
  tables_DEFAULT :: "cell list list option"
  fields_DEFAULT :: "field list option"

record container =
  innerHTML :: string

definition no_data_html :: string where
  "no_data_html =
     ''<p class=\"text-center text-gray-500\">No data available. Please ensure dimensions are added to the visualization.</p>''"

definition error_html :: "string \<Rightarrow> string" where
  "error_html error_message =
     ''<p class=\"text-center text-red-500\">Error rendering visualization: '' @ error_message @ ''</p>''"

text \<open>
  The guard is \<open>!data || data.length === 0 || !fields || fields.length === 0\<close>. Every
  path ends by assigning \<open>innerHTML\<close>; an exception thrown by \<open>organizeData\<close> is caught
  and its message shown.
\<close>

definition drawViz :: "(js_error \<Rightarrow> string) \<Rightarrow> message \<Rightarrow> container \<Rightarrow> container outcome" where
  "drawViz error_message message visContainer =
     (let cleared = visContainer\<lparr>innerHTML := []\<rparr>;
          no_data = Returns (cleared\<lparr>innerHTML := no_data_html\<rparr>)
      in case tables_DEFAULT message of
           None \<Rightarrow> no_data
         | Some data \<Rightarrow>
             (case fields_DEFAULT message of
                None \<Rightarrow> no_data
              | Some field_list \<Rightarrow>
                  if data = [] \<or> field_list = [] then no_data
                  else (case organizeData data field_list of
                          Returns organizedData \<Rightarrow>
                            Returns (cleared\<lparr>innerHTML := generateHtmlTables organizedData\<rparr>)
                        | Throws error \<Rightarrow>
                            Returns (cleared\<lparr>innerHTML := error_html (error_message error)\<rparr>)
                        | Escapes \<Rightarrow> Escapes)))"


section \<open>original-viz.js: rows with a dimension array\<close>

record swimmer_row_object =
  race :: cell
  heat :: cell
  lane :: cell
  name :: cell
  agegroup :: cell
  academy :: cell

text \<open>
  Every row of \<open>data.tables.DEFAULT\<close> carries a \<open>dimension\<close> array. The destructuring
  reads its first six entries; an entry past its end is undefined.
\<close>

record dimension_row =
  dimension :: "cell list"

text \<open>
  The document body, as a tree. \<open>Text_node\<close> is what \<open>textContent\<close> stores, \<open>Markup\<close>
  the string given to \<open>innerHTML\<close>.
\<close>

datatype dom =
    Element (tagName: string) (element_id: string) (className: string) (childNodes: "dom list")
  | Text_node string
  | Markup string

text \<open>
  \<open>(result[item[key]] = result[item[key]] || []).push(item)\<close>. An inherited value is
  truthy, is stored back, and has no \<open>push\<close>: the call throws a TypeError.
\<close>

definition groupBy_callback :: "('a \<Rightarrow> cell) \<Rightarrow> 'a list obj \<Rightarrow> 'a \<Rightarrow> js_error + 'a list obj" where
  "groupBy_callback key result item =
     (case get_prop result (toString (key item)) of
        Own items \<Rightarrow> Inr (obj_set (toString (key item)) (items @ [item]) result)
      | Missing \<Rightarrow> Inr (obj_set (toString (key item)) ([] @ [item]) result)
      | Inherited \<Rightarrow> Inl Push_is_not_a_function)"

fun array_reduce :: "('a \<Rightarrow> cell) \<Rightarrow> 'a list obj \<Rightarrow> 'a list \<Rightarrow> js_error + 'a list obj" where
  "array_reduce key result [] = Inr result"
| "array_reduce key result (item # rest) =
     (case groupBy_callback key result item of
        Inr result' \<Rightarrow> array_reduce key result' rest
      | Inl e \<Rightarrow> Inl e)"

definition groupBy :: "'a list \<Rightarrow> ('a \<Rightarrow> cell) \<Rightarrow> js_error + 'a list obj" where
  "groupBy array key = array_reduce key [] array"

definition destructure :: "dimension_row \<Rightarrow> swimmer_row_object" where
  "destructure row =
     (let d = dimension row
      in \<lparr>race = cell_at d (Some 0), heat = cell_at d (Some 1), lane = cell_at d (Some 2),
          name = cell_at d (Some 3), agegroup = cell_at d (Some 4), academy = cell_at d (Some 5)\<rparr>)"

definition no_data_node :: dom where
  "no_data_node =
     Element ''div'' [] ''no-data''
       [Text_node ''No data available. Please ensure dimensions are added to the visualization.'']"

definition thead_node :: dom where
  "thead_node =
     Element ''thead'' [] []
       [Markup ''<tr><th>Lane</th><th>Name</th><th>Age Group</th><th>Academy</th></tr>'']"

definition tr_node :: "swimmer_row_object \<Rightarrow> dom" where
  "tr_node s =
     Element ''tr'' [] []
       [Markup (''<td>'' @ toString (lane s) @ ''</td><td>'' @ toString (name s)
                @ ''</td><td>'' @ toString (agegroup s) @ ''</td><td>'' @ toString (academy s)
                @ ''</td>'')]"

definition heat_node :: "string \<times> swimmer_row_object list \<Rightarrow> dom" where
  "heat_node entry =
     (case entry of (heatName, swimmers) \<Rightarrow>
        Element ''div'' [] ''heat-container''
          [Element ''h2'' [] ''heat-title'' [Text_node (''Heat: '' @ heatName)],
           Element ''div'' [] ''data-table-wrapper''
             [Element ''table'' [] ''data-table''
                [thead_node, Element ''tbody'' [] [] (map tr_node swimmers)]]])"

definition race_title_node :: "cell \<Rightarrow> dom" where
  "race_title_node raceName =
     Element ''h1'' [] ''main-title'' [Text_node (''Race: '' @ toString raceName)]"

text \<open>
  A call of the original \<open>drawViz\<close> ends normally or lets an exception through to its
  caller; either way \<open>document.body\<close> is left with the children listed.
\<close>

datatype host_result = Completed "dom list" | Propagated js_error "dom list"

definition original_drawViz :: "dimension_row list \<Rightarrow> dom list \<Rightarrow> host_result" where
  "original_drawViz tables_default body =
     (let body0 = ([] :: dom list);
          rows = map destructure tables_default
      in case rows of
           [] \<Rightarrow> Completed (body0 @ [no_data_node])
         | first_row # others \<Rightarrow>
             (case groupBy rows heat of
                Inr heats \<Rightarrow>
                  Completed (body0 @ [Element ''div'' ''app'' []
                     (race_title_node (race first_row) # map heat_node (own_entries heats))])
              | Inl e \<Rightarrow> Propagated e body0))"



section \<open>The grouping and the display, as the specification describes them\<close>

text \<open>
  \<open>first_seen\<close> lists the distinct elements of a sequence in the order of their first
  occurrence. \<open>key_order\<close> is the order in which an object presents keys created in a
  given order.
\<close>

definition first_seen :: "'a list \<Rightarrow> 'a list" where
  "first_seen xs = fold (\<lambda>x seen. if x \<in> set seen then seen else seen @ [x]) xs []"

definition key_order :: "string list \<Rightarrow> string list" where
  "key_order ks =
     sort_key index_value (filter is_array_index ks) @ filter (\<lambda>k. \<not> is_array_index k) ks"

text \<open>
  For the flat rows: the rows of a race, the race and heat names in first-seen order, the
  swimmer records of one race and heat in row order, and the grouping made of them.
\<close>

definition rows_of_race :: "(string \<rightharpoonup> nat) \<Rightarrow> string \<Rightarrow> cell list list \<Rightarrow> cell list list" where
  "rows_of_race fm r rows = filter (\<lambda>row. raceName_of fm row = r) rows"

definition bucket :: "(string \<rightharpoonup> nat) \<Rightarrow> string \<Rightarrow> string \<Rightarrow> cell list list \<Rightarrow> swimmer list" where
  "bucket fm r h rows =
     map (swimmer_of fm) (filter (\<lambda>row. heatName_of fm row = h) (rows_of_race fm r rows))"

definition heats_seen :: "(string \<rightharpoonup> nat) \<Rightarrow> string \<Rightarrow> cell list list \<Rightarrow> string list" where
  "heats_seen fm r rows = first_seen (map (heatName_of fm) (rows_of_race fm r rows))"

definition races_seen :: "(string \<rightharpoonup> nat) \<Rightarrow> cell list list \<Rightarrow> string list" where
  "races_seen fm rows = first_seen (map (raceName_of fm) rows)"

definition grouped :: "(string \<rightharpoonup> nat) \<Rightarrow> cell list list \<Rightarrow> organized" where
  "grouped fm rows =
     map (\<lambda>r. (r, map (\<lambda>h. (h, bucket fm r h rows)) (heats_seen fm r rows))) (races_seen fm rows)"

text \<open>No row has a race or heat name that \<open>Object.prototype\<close> also defines.\<close>

definition plain_keys :: "(string \<rightharpoonup> nat) \<Rightarrow> cell list list \<Rightarrow> bool" where
  "plain_keys fm rows =
     list_all (\<lambda>row. raceName_of fm row \<notin> set object_prototype_names
                    \<and> heatName_of fm row \<notin> set object_prototype_names) rows"

text \<open>Grouping by one key, as \<open>groupBy\<close> is meant to; the number of records in a grouping.\<close>

definition by_key :: "('a \<Rightarrow> cell) \<Rightarrow> 'a list \<Rightarrow> 'a list obj" where
  "by_key key items =
     map (\<lambda>k. (k, filter (\<lambda>item. toString (key item) = k) items))
       (first_seen (map (\<lambda>item. toString (key item)) items))"

definition heat_count :: "'a list obj \<Rightarrow> nat" where
  "heat_count heats = sum_list (map (\<lambda>(h, items). length items) heats)"

definition record_count :: "'a list obj obj \<Rightarrow> nat" where
  "record_count organized = sum_list (map (\<lambda>(r, heats). heat_count heats) organized)"

text \<open>The markup of the rows of a table, of a heat subsection and of a race section.\<close>

definition rows_html :: "nat \<Rightarrow> swimmer list \<Rightarrow> string" where
  "rows_html index swimmers = concat (map (\<lambda>(i, s). swimmer_row i s) (enumerate index swimmers))"

definition heat_section :: "string \<times> swimmer list \<Rightarrow> string" where
  "heat_section entry =
     (case entry of (heatName, swimmers) \<Rightarrow> heat_open heatName @ rows_html 0 swimmers @ heat_close)"

definition race_section :: "string \<times> heats \<Rightarrow> string" where
  "race_section entry =
     (case entry of (raceName, heats) \<Rightarrow>
        race_open raceName @ concat (map heat_section (own_entries heats)) @ race_close)"



subsection \<open>Concrete inputs\<close>

definition six_fields :: "field list" where
  "six_fields =
     [\<lparr>field_id = Str ''RACE''\<rparr>, \<lparr>field_id = Str ''HEAT''\<rparr>, \<lparr>field_id = Str ''LANE''\<rparr>,
      \<lparr>field_id = Str ''NAME''\<rparr>, \<lparr>field_id = Str ''AGEGROUP''\<rparr>, \<lparr>field_id = Str ''ACADEMY''\<rparr>]"


definition example_rows :: "cell list list" where
  "example_rows =
     [[Str ''100m Freestyle'', Str ''Heat 1'', Num 1, Str ''A. Smith'', Str ''U12'', Str ''Delta''],
      [Str ''100m Freestyle'', Str ''Heat 1'', Num 2, Str ''B. Jones'', Str ''U12'', Str ''Echo''],
      [Str ''100m Freestyle'', Str ''Heat 2'', Num 1, Str ''C. Lee'', Str ''U14'', Str ''Delta'']]"


definition smith :: swimmer where
  "smith = \<lparr>Lane = Num 1, Name = Str ''A. Smith'', Age = Str ''U12'', Academy = Str ''Delta''\<rparr>"
definition jones :: swimmer where
  "jones = \<lparr>Lane = Num 2, Name = Str ''B. Jones'', Age = Str ''U12'', Academy = Str ''Echo''\<rparr>"
definition lee :: swimmer where
  "lee = \<lparr>Lane = Num 1, Name = Str ''C. Lee'', Age = Str ''U14'', Academy = Str ''Delta''\<rparr>"



definition smith_object :: swimmer_row_object where
  "smith_object = \<lparr>race = Str ''100m Freestyle'', heat = Str ''Heat 1'', lane = Num 1,
     name = Str ''A. Smith'', agegroup = Str ''U12'', academy = Str ''Delta''\<rparr>"

definition jones_object :: swimmer_row_object where
  "jones_object = \<lparr>race = Str ''100m Freestyle'', heat = Str ''Heat 1'', lane = Num 2,
     name = Str ''B. Jones'', agegroup = Str ''U12'', academy = Str ''Echo''\<rparr>"

definition lee_object :: swimmer_row_object where
  "lee_object = \<lparr>race = Str ''100m Freestyle'', heat = Str ''Heat 2'', lane = Num 1,
     name = Str ''C. Lee'', agegroup = Str ''U14'', academy = Str ''Delta''\<rparr>"

definition medley_lee_object :: swimmer_row_object where
  "medley_lee_object = \<lparr>race = Str ''200m Medley'', heat = Str ''Heat 1'', lane = Num 1,
     name = Str ''C. Lee'', agegroup = Str ''U14'', academy = Str ''Delta''\<rparr>"

definition descending_heat_rows :: "cell list list" where
  "descending_heat_rows =
     [[Str ''100m Freestyle'', Num 2, Num 1, Str ''A. Smith'', Str ''U12'', Str ''Delta''],
      [Str ''100m Freestyle'', Num 1, Num 1, Str ''C. Lee'', Str ''U14'', Str ''Delta'']]"

definition inherited_heat_rows :: "cell list list" where
  "inherited_heat_rows =
     [[Str ''100m Freestyle'', Str ''constructor'', Num 1, Str ''A. Smith'', Str ''U12'', Str ''Delta'']]"


definition inherited_heat_dimensions :: "dimension_row list" where
  "inherited_heat_dimensions =
     [\<lparr>dimension = [Str ''100m Freestyle'', Str ''constructor'', Num 1, Str ''A. Smith'', Str ''U12'', Str ''Delta'']\<rparr>]"

definition toString_heat_dimensions :: "dimension_row list" where
  "toString_heat_dimensions =
     [\<lparr>dimension = [Str ''100m Freestyle'', Str ''toString'', Num 1, Str ''A. Smith'', Str ''U12'', Str ''Delta'']\<rparr>]"

definition two_race_dimensions :: "dimension_row list" where
  "two_race_dimensions =
     [\<lparr>dimension = [Str ''100m Freestyle'', Str ''Heat 1'', Num 1, Str ''A. Smith'', Str ''U12'', Str ''Delta'']\<rparr>,
      \<lparr>dimension = [Str ''200m Medley'', Str ''Heat 1'', Num 1, Str ''C. Lee'', Str ''U14'', Str ''Delta'']\<rparr>]"


section \<open>Keys and objects\<close>

lemma first_seen_Nil [simp]: "first_seen [] = []"
  by (simp add: first_seen_def)

lemma first_seen_snoc:
  "first_seen (xs @ [x]) = (if x \<in> set (first_seen xs) then first_seen xs else first_seen xs @ [x])"
  by (simp add: first_seen_def)

lemma set_first_seen [simp]: "set (first_seen xs) = set xs"
  by (induction xs rule: rev_induct) (auto simp: first_seen_snoc)

lemma distinct_first_seen [simp]: "distinct (first_seen xs)"
  by (induction xs rule: rev_induct) (auto simp: first_seen_snoc)

lemma insort_key_map:
  "map g (insort_key (\<lambda>x. f (g x)) x ys) = insort_key f (g x) (map g ys)"
  by (induction ys) auto

lemma sort_key_map: "sort_key f (map g xs) = map g (sort_key (\<lambda>x. f (g x)) xs)"
  by (induction xs) (auto simp: insort_key_map)

lemma own_entries_map:
  "own_entries (map (\<lambda>k. (k, F k)) ks) = map (\<lambda>k. (k, F k)) (key_order ks)"
  by (simp add: own_entries_def key_order_def sort_key_map filter_map comp_def)

lemma set_own_entries [simp]: "set (own_entries obj) = set obj"
  by (auto simp: own_entries_def)

lemma set_key_order [simp]: "set (key_order ks) = set ks"
  by (auto simp: key_order_def)

lemma distinct_key_order: "distinct ks \<Longrightarrow> distinct (key_order ks)"
  by (auto simp: key_order_def distinct_insort)

lemma key_order_no_index: "\<forall>k\<in>set ks. \<not> is_array_index k \<Longrightarrow> key_order ks = ks"
  by (simp add: key_order_def filter_empty_conv)

lemma get_prop_map:
  "get_prop (map (\<lambda>k. (k, F k)) ks) k =
     (if k \<in> set ks then Own (F k) else if k \<in> set object_prototype_names then Inherited else Missing)"
  by (simp add: get_prop_def map_of_map_restrict restrict_map_def)

lemma get_prop_Nil:
  "get_prop [] k = (if k \<in> set object_prototype_names then Inherited else Missing)"
  by (simp add: get_prop_def)

lemma obj_set_map_in:
  "distinct ks \<Longrightarrow> k \<in> set ks \<Longrightarrow>
   obj_set k v (map (\<lambda>x. (x, F x)) ks) = map (\<lambda>x. (x, if x = k then v else F x)) ks"
  by (induction ks) auto

lemma obj_set_map_notin:
  "k \<notin> set ks \<Longrightarrow> obj_set k v (map (\<lambda>x. (x, F x)) ks @ rest) = map (\<lambda>x. (x, F x)) ks @ obj_set k v rest"
  by (induction ks) auto


section \<open>organizeData builds the grouping\<close>

lemma grouped_Nil [simp]: "grouped fm [] = []"
  by (simp add: grouped_def races_seen_def)

lemma rows_of_race_snoc:
  "rows_of_race fm r (rows @ [row]) =
     (if raceName_of fm row = r then rows_of_race fm r rows @ [row] else rows_of_race fm r rows)"
  by (simp add: rows_of_race_def)

lemma bucket_snoc:
  "bucket fm r h (rows @ [row]) =
     (if raceName_of fm row = r \<and> heatName_of fm row = h
      then bucket fm r h rows @ [swimmer_of fm row] else bucket fm r h rows)"
  by (simp add: bucket_def rows_of_race_snoc)

lemma heats_seen_snoc:
  "heats_seen fm r (rows @ [row]) =
     (if raceName_of fm row = r \<and> heatName_of fm row \<notin> set (heats_seen fm r rows)
      then heats_seen fm r rows @ [heatName_of fm row] else heats_seen fm r rows)"
  by (simp add: heats_seen_def rows_of_race_snoc first_seen_snoc)

lemma races_seen_snoc:
  "races_seen fm (rows @ [row]) =
     (if raceName_of fm row \<in> set (races_seen fm rows)
      then races_seen fm rows else races_seen fm rows @ [raceName_of fm row])"
  by (simp add: races_seen_def first_seen_snoc)

lemma rows_of_race_empty: "r \<notin> set (races_seen fm rows) \<Longrightarrow> rows_of_race fm r rows = []"
  by (auto simp: races_seen_def rows_of_race_def filter_empty_conv)

lemma heats_seen_empty: "r \<notin> set (races_seen fm rows) \<Longrightarrow> heats_seen fm r rows = []"
  by (simp add: heats_seen_def rows_of_race_empty)

lemma bucket_empty: "h \<notin> set (heats_seen fm r rows) \<Longrightarrow> bucket fm r h rows = []"
  by (auto simp: heats_seen_def bucket_def filter_empty_conv)

lemma organize_row_grouped:
  assumes r: "raceName_of fm row \<notin> set object_prototype_names"
    and h: "heatName_of fm row \<notin> set object_prototype_names"
  shows "organize_row fm (grouped fm rows) row = Returns (grouped fm (rows @ [row]))"
proof (cases "raceName_of fm row \<in> set (races_seen fm rows)")
  case False
  then have "organize_row fm (grouped fm rows) row =
      Returns (grouped fm rows @ [(raceName_of fm row, [(heatName_of fm row, [swimmer_of fm row])])])"
    using r h
    by (simp add: organize_row_def Let_def grouped_def get_prop_map push_swimmer_def get_prop_Nil
        obj_set_map_notin)
  moreover have "grouped fm (rows @ [row]) =
      grouped fm rows @ [(raceName_of fm row, [(heatName_of fm row, [swimmer_of fm row])])]"
    using False
    by (auto simp: grouped_def races_seen_snoc heats_seen_snoc bucket_snoc heats_seen_empty bucket_empty)
  ultimately show ?thesis by simp
next
  case True
  note seen = True
  show ?thesis
  proof (cases "heatName_of fm row \<in> set (heats_seen fm (raceName_of fm row) rows)")
    case True
    have "organize_row fm (grouped fm rows) row =
      Returns (map (\<lambda>x. (x, if x = raceName_of fm row
           then map (\<lambda>y. (y, if y = heatName_of fm row
                  then bucket fm x y rows @ [swimmer_of fm row] else bucket fm x y rows)) (heats_seen fm x rows)
           else map (\<lambda>h. (h, bucket fm x h rows)) (heats_seen fm x rows))) (races_seen fm rows))"
      using seen True
      by (simp add: organize_row_def Let_def grouped_def get_prop_map push_swimmer_def
          obj_set_map_in heats_seen_def races_seen_def)
    moreover have "grouped fm (rows @ [row]) = (map (\<lambda>x. (x, if x = raceName_of fm row
           then map (\<lambda>y. (y, if y = heatName_of fm row
                  then bucket fm x y rows @ [swimmer_of fm row] else bucket fm x y rows)) (heats_seen fm x rows)
           else map (\<lambda>h. (h, bucket fm x h rows)) (heats_seen fm x rows))) (races_seen fm rows))"
      using seen True
      by (auto simp: grouped_def races_seen_snoc heats_seen_snoc bucket_snoc)
    ultimately show ?thesis by simp
  next
    case False
    have "organize_row fm (grouped fm rows) row =
      Returns (map (\<lambda>x. (x, if x = raceName_of fm row
           then map (\<lambda>h. (h, bucket fm x h rows)) (heats_seen fm x rows)
                @ [(heatName_of fm row, [swimmer_of fm row])]
           else map (\<lambda>h. (h, bucket fm x h rows)) (heats_seen fm x rows))) (races_seen fm rows))"
      using seen False h
      by (simp add: organize_row_def Let_def grouped_def get_prop_map push_swimmer_def
          obj_set_map_in races_seen_def)
    moreover have "grouped fm (rows @ [row]) = (map (\<lambda>x. (x, if x = raceName_of fm row
           then map (\<lambda>h. (h, bucket fm x h rows)) (heats_seen fm x rows)
                @ [(heatName_of fm row, [swimmer_of fm row])]
           else map (\<lambda>h. (h, bucket fm x h rows)) (heats_seen fm x rows))) (races_seen fm rows))"
      using seen False
      by (auto simp: grouped_def races_seen_snoc heats_seen_snoc bucket_snoc bucket_empty)
    ultimately show ?thesis by simp
  qed
qed

lemma data_forEach_grouped:
  "plain_keys fm rest \<Longrightarrow>
   data_forEach fm (grouped fm rows) rest = Returns (grouped fm (rows @ rest))"
proof (induction rest arbitrary: rows)
  case Nil
  then show ?case by simp
next
  case (Cons row rest)
  then have "organize_row fm (grouped fm rows) row = Returns (grouped fm (rows @ [row]))"
    by (simp add: plain_keys_def organize_row_grouped)
  moreover have "data_forEach fm (grouped fm (rows @ [row])) rest = Returns (grouped fm ((rows @ [row]) @ rest))"
    using Cons.prems by (intro Cons.IH) (simp add: plain_keys_def)
  ultimately show ?case by simp
qed

lemma organizeData_grouped:
  "plain_keys (fields_forEach Map.empty 0 fs) data \<Longrightarrow>
   organizeData data fs = Returns (grouped (fields_forEach Map.empty 0 fs) data)"
  using data_forEach_grouped [of "fields_forEach Map.empty 0 fs" data "[]"]
  by (simp add: organizeData_def)

lemma row_in_bucket:
  "row \<in> set data \<Longrightarrow>
   swimmer_of fm row \<in> set (bucket fm (raceName_of fm row) (heatName_of fm row) data)"
  by (simp add: bucket_def rows_of_race_def)


section \<open>groupBy builds the grouping by one key\<close>

lemma by_key_Nil [simp]: "by_key key [] = []"
  by (simp add: by_key_def)

lemma groupBy_callback_by_key:
  assumes "toString (key item) \<notin> set object_prototype_names"
  shows "groupBy_callback key (by_key key items) item = Inr (by_key key (items @ [item]))"
proof (cases "toString (key item) \<in> set (map (\<lambda>item. toString (key item)) items)")
  case True
  then have "groupBy_callback key (by_key key items) item =
      Inr (map (\<lambda>k. (k, if k = toString (key item)
             then filter (\<lambda>x. toString (key x) = k) items @ [item]
             else filter (\<lambda>x. toString (key x) = k) items))
        (first_seen (map (\<lambda>item. toString (key item)) items)))"
    by (simp add: groupBy_callback_def by_key_def get_prop_map obj_set_map_in)
  moreover have "by_key key (items @ [item]) =
      map (\<lambda>k. (k, if k = toString (key item)
             then filter (\<lambda>x. toString (key x) = k) items @ [item]
             else filter (\<lambda>x. toString (key x) = k) items))
        (first_seen (map (\<lambda>item. toString (key item)) items))"
    using True by (auto simp: by_key_def first_seen_snoc)
  ultimately show ?thesis by simp
next
  case False
  then have none: "filter (\<lambda>x. toString (key x) = toString (key item)) items = []"
    by (simp add: filter_empty_conv) (metis imageI)
  from False assms have "groupBy_callback key (by_key key items) item =
      Inr (by_key key items @ [(toString (key item), [item])])"
    using obj_set_map_notin [of "toString (key item)" _ "[item]" _ "[]"]
    by (simp add: groupBy_callback_def by_key_def get_prop_map)
  moreover have "by_key key (items @ [item]) = by_key key items @ [(toString (key item), [item])]"
    using False none by (auto simp: by_key_def first_seen_snoc)
  ultimately show ?thesis by simp
qed

lemma array_reduce_by_key:
  "list_all (\<lambda>item. toString (key item) \<notin> set object_prototype_names) rest \<Longrightarrow>
   array_reduce key (by_key key items) rest = Inr (by_key key (items @ rest))"
proof (induction rest arbitrary: items)
  case Nil
  then show ?case by simp
next
  case (Cons item rest)
  then have "groupBy_callback key (by_key key items) item = Inr (by_key key (items @ [item]))"
    by (simp add: groupBy_callback_by_key)
  moreover have "array_reduce key (by_key key (items @ [item])) rest = Inr (by_key key ((items @ [item]) @ rest))"
    using Cons.prems by (intro Cons.IH) simp
  ultimately show ?case by simp
qed

lemma groupBy_by_key:
  "list_all (\<lambda>item. toString (key item) \<notin> set object_prototype_names) array \<Longrightarrow>
   groupBy array key = Inr (by_key key array)"
  using array_reduce_by_key [of key array "[]"] by (simp add: groupBy_def)

section \<open>Counting the records\<close>

lemma length_filter_disjoint:
  "(\<And>x. x \<in> set xs \<Longrightarrow> \<not> (P x \<and> Q x)) \<Longrightarrow>
   length (filter P xs) + length (filter Q xs) = length (filter (\<lambda>x. P x \<or> Q x) xs)"
  by (induction xs) auto

lemma sum_length_filter_keys:
  "distinct ks \<Longrightarrow>
   sum_list (map (\<lambda>k. length (filter (\<lambda>x. f x = k) xs)) ks) = length (filter (\<lambda>x. f x \<in> set ks) xs)"
proof (induction ks)
  case Nil
  then show ?case by simp
next
  case (Cons k ks)
  have "length (filter (\<lambda>x. f x = k) xs) + length (filter (\<lambda>x. f x \<in> set ks) xs)
      = length (filter (\<lambda>x. f x = k \<or> f x \<in> set ks) xs)"
    using Cons.prems by (intro length_filter_disjoint) auto
  with Cons show ?case by simp
qed

lemma sum_length_first_seen:
  "sum_list (map (\<lambda>k. length (filter (\<lambda>x. f x = k) xs)) (first_seen (map f xs))) = length xs"
  by (simp add: sum_length_filter_keys)

lemma heat_count_by_key: "heat_count (by_key key items) = length items"
  using sum_length_first_seen [of "\<lambda>item. toString (key item)" items]
  by (simp add: heat_count_def by_key_def comp_def)

lemma record_count_grouped: "record_count (grouped fm rows) = length rows"
proof -
  have inner: "heat_count (map (\<lambda>h. (h, bucket fm r h rows)) (heats_seen fm r rows))
      = length (filter (\<lambda>row. raceName_of fm row = r) rows)" for r
    using sum_length_first_seen [of "heatName_of fm" "rows_of_race fm r rows"]
    by (simp add: heat_count_def bucket_def heats_seen_def comp_def rows_of_race_def)
  show ?thesis
    using sum_length_first_seen [of "raceName_of fm" rows]
    by (simp add: record_count_def grouped_def comp_def inner races_seen_def)
qed

section \<open>The markup that the loops produce\<close>

lemma swimmers_forEach_eq: "swimmers_forEach html index swimmers = html @ rows_html index swimmers"
  by (induction swimmers arbitrary: html index) (simp_all add: rows_html_def)

lemma heats_for_in_eq: "heats_for_in html entries = html @ concat (map heat_section entries)"
  by (induction html entries rule: heats_for_in.induct)
     (simp_all add: heat_section_def swimmers_forEach_eq)

lemma races_for_in_eq: "races_for_in html entries = html @ concat (map race_section entries)"
  by (induction html entries rule: races_for_in.induct)
     (simp_all add: race_section_def heats_for_in_eq)

lemma generateHtmlTables_eq:
  "generateHtmlTables organizedData = concat (map race_section (own_entries organizedData))"
  by (simp add: generateHtmlTables_def races_for_in_eq)




lemma generateHtmlTables_grouped:
  "generateHtmlTables (grouped fm data) =
     concat (map (\<lambda>r. race_open r
          @ concat (map (\<lambda>h. heat_open h @ rows_html 0 (bucket fm r h data) @ heat_close)
                     (key_order (heats_seen fm r data)))
          @ race_close)
       (key_order (races_seen fm data)))"
  by (simp add: generateHtmlTables_eq grouped_def own_entries_map race_section_def
      heat_section_def comp_def)

section \<open>The two draw operations\<close>

lemma drawViz_grouped:
  assumes "tables_DEFAULT message = Some data" and "data \<noteq> []"
    and "fields_DEFAULT message = Some field_list" and "field_list \<noteq> []"
    and "plain_keys (fields_forEach Map.empty 0 field_list) data"
  shows "drawViz error_message message visContainer =
     Returns (visContainer\<lparr>innerHTML :=
        generateHtmlTables (grouped (fields_forEach Map.empty 0 field_list) data)\<rparr>)"
  using assms by (simp add: drawViz_def Let_def organizeData_grouped)

lemma drawViz_catches_exception:
  assumes "tables_DEFAULT message = Some data" and "data \<noteq> []"
    and "fields_DEFAULT message = Some field_list" and "field_list \<noteq> []"
    and "organizeData data field_list = Throws e"
  shows "drawViz error_message message visContainer =
     Returns (visContainer\<lparr>innerHTML := error_html (error_message e)\<rparr>)"
  using assms by (simp add: drawViz_def Let_def)

lemma drawViz_never_throws: "drawViz error_message message visContainer \<noteq> Throws e"
  by (simp add: drawViz_def Let_def split: option.splits outcome.splits)

lemma drawViz_ignores_previous_content:
  assumes "drawViz error_message message visContainer = Returns shown"
  shows "drawViz error_message message visContainer' = Returns (visContainer'\<lparr>innerHTML := innerHTML shown\<rparr>)"
  using assms by (auto simp: drawViz_def Let_def split: option.splits outcome.splits if_splits)

lemma original_drawViz_propagates:
  assumes "groupBy (map destructure rows) heat = Inl e"
  shows "original_drawViz rows body = Propagated e []"
proof -
  from assms have "rows \<noteq> []" by (auto simp: groupBy_def)
  then obtain row rest where "rows = row # rest" by (cases rows) auto
  with assms show ?thesis by (simp add: original_drawViz_def)
qed

lemma original_drawViz_Inr:
  assumes "groupBy (map destructure rows) heat = Inr heats" and "rows \<noteq> []"
  shows "original_drawViz rows body =
     Completed [Element ''div'' ''app'' []
       (race_title_node (race (destructure (hd rows))) # map heat_node (own_entries heats))]"
proof -
  from assms(2) obtain row rest where "rows = row # rest" by (cases rows) auto
  with assms(1) show ?thesis by (simp add: original_drawViz_def)
qed

lemma original_drawViz_by_key:
  assumes "rows \<noteq> []"
    and "list_all (\<lambda>row. toString (heat (destructure row)) \<notin> set object_prototype_names) rows"
  shows "original_drawViz rows body =
     Completed [Element ''div'' ''app'' []
       (race_title_node (race (destructure (hd rows)))
        # map (\<lambda>h. heat_node (h, filter (\<lambda>item. toString (heat item) = h) (map destructure rows)))
            (key_order (first_seen (map (\<lambda>row. toString (heat (destructure row))) rows))))]"
proof -
  from assms(2) have "groupBy (map destructure rows) heat = Inr (by_key heat (map destructure rows))"
    by (intro groupBy_by_key) (simp add: list_all_iff)
  with assms(1) show ?thesis
    by (simp add: original_drawViz_Inr by_key_def own_entries_map comp_def)
qed

section \<open>Evaluation of the concrete inputs\<close>

lemmas key_eval = is_array_index_def is_digit_def index_value_def digit_val_def
lemmas row_eval = organize_row_def push_swimmer_def get_prop_def raceName_of_def heatName_of_def
  swimmer_of_def cell_at_def object_prototype_names_def Let_def

lemma toString_small:
  "show_nat (Suc 0) = ''1''" "show_nat 1 = ''1''" "show_nat 2 = ''2''"
  by (simp_all add: show_nat.simps digit_char_def)

lemma six_fields_map:
  "fields_forEach Map.empty 0 six_fields =
     [''RACE'' \<mapsto> 0, ''HEAT'' \<mapsto> 1, ''LANE'' \<mapsto> 2, ''NAME'' \<mapsto> 3, ''AGEGROUP'' \<mapsto> 4, ''ACADEMY'' \<mapsto> 5]"
  by (simp add: six_fields_def fieldMap_set_def eval_nat_numeral)



lemma example_plain_keys: "plain_keys (fields_forEach Map.empty 0 six_fields) example_rows"
  by (simp add: plain_keys_def six_fields_map example_rows_def raceName_of_def heatName_of_def
      cell_at_def object_prototype_names_def)

lemma example_races_seen:
  "races_seen (fields_forEach Map.empty 0 six_fields) example_rows = [''100m Freestyle'']"
  by (simp add: races_seen_def first_seen_def six_fields_map example_rows_def raceName_of_def cell_at_def)

lemma example_heats_seen:
  "heats_seen (fields_forEach Map.empty 0 six_fields) ''100m Freestyle'' example_rows
     = [''Heat 1'', ''Heat 2'']"
  by (simp add: heats_seen_def rows_of_race_def first_seen_def six_fields_map example_rows_def
      raceName_of_def heatName_of_def cell_at_def)

lemma example_buckets:
  "bucket (fields_forEach Map.empty 0 six_fields) ''100m Freestyle'' ''Heat 1'' example_rows = [smith, jones]"
  "bucket (fields_forEach Map.empty 0 six_fields) ''100m Freestyle'' ''Heat 2'' example_rows = [lee]"
  by (simp_all add: bucket_def rows_of_race_def six_fields_map example_rows_def
      raceName_of_def heatName_of_def swimmer_of_def cell_at_def smith_def jones_def lee_def)

lemma example_key_order:
  "key_order [''100m Freestyle''] = [''100m Freestyle'']"
  "key_order [''Heat 1'', ''Heat 2''] = [''Heat 1'', ''Heat 2'']"
  by (simp_all add: key_order_def key_eval)



lemma example_items_plain:
  "list_all (\<lambda>item. toString (heat item) \<notin> set object_prototype_names)
     [smith_object, jones_object, lee_object]"
  by (simp add: smith_object_def jones_object_def lee_object_def object_prototype_names_def)

lemma descending_organized:
  "organizeData descending_heat_rows six_fields =
     Returns [(''100m Freestyle'',
       [(''2'', [smith]), (''1'', [\<lparr>Lane = Num 1, Name = Str ''C. Lee'', Age = Str ''U14'', Academy = Str ''Delta''\<rparr>])])]"
  by (simp add: organizeData_def six_fields_map descending_heat_rows_def row_eval smith_def
      toString_small)

lemma inherited_heat_groupBy:
  "groupBy (map destructure inherited_heat_dimensions) heat = Inl Push_is_not_a_function"
  by (simp add: groupBy_def inherited_heat_dimensions_def destructure_def cell_at_def
      groupBy_callback_def get_prop_def object_prototype_names_def)

lemma inherited_heat_throws:
  "organizeData inherited_heat_rows six_fields = Throws Push_is_not_a_function"
  by (simp add: organizeData_def six_fields_map inherited_heat_rows_def row_eval)

lemma two_race_destructured:
  "map destructure two_race_dimensions = [smith_object, medley_lee_object]"
  by (simp add: two_race_dimensions_def destructure_def cell_at_def smith_object_def
      medley_lee_object_def)



lemma inherited_heat_caught:
  "drawViz error_message \<lparr>tables_DEFAULT = Some inherited_heat_rows, fields_DEFAULT = Some six_fields\<rparr>
     visContainer =
   Returns (visContainer\<lparr>innerHTML := error_html (error_message Push_is_not_a_function)\<rparr>)"
proof -
  have "inherited_heat_rows \<noteq> []" "six_fields \<noteq> []"
    by (simp_all add: inherited_heat_rows_def six_fields_def)
  then show ?thesis
    using inherited_heat_throws by (simp add: drawViz_catches_exception)
qed


section \<open>The claims\<close>

text \<open>
  C1. The claim is that the race sections, and the heat subsections inside them, follow the
  first-seen order of their names. index.js keeps them as the properties of an object, and
  an object lists its array-index keys first, in ascending numeric order. What holds:
  when the row set and the field list are non-empty and no race or heat name is a property
  name of \<open>Object.prototype\<close>, the output is one race section per distinct race name, in
  \<open>key_order\<close> of the first-seen order, and each holds one heat subsection per distinct
  heat name of that race, in \<open>key_order\<close> of the first-seen order, with the records of
  that race and heat in row order. The order is the first-seen order when no name is an
  array index. The counterexample has the heats 2 and 1, in that order of rows, and shows
  heat 1 before heat 2.
\<close>

theorem sections_follow_key_order:
  fixes field_list :: "field list"
  defines "fm \<equiv> fields_forEach Map.empty 0 field_list"
  assumes "tables_DEFAULT message = Some data" and "data \<noteq> []"
    and "fields_DEFAULT message = Some field_list" and "field_list \<noteq> []"
    and "plain_keys fm data"
  shows "drawViz error_message message visContainer =
     Returns (visContainer\<lparr>innerHTML :=
       concat (map (\<lambda>r. race_open r
            @ concat (map (\<lambda>h. heat_open h @ rows_html 0 (bucket fm r h data) @ heat_close)
                       (key_order (heats_seen fm r data)))
            @ race_close)
         (key_order (races_seen fm data)))\<rparr>)
   \<and> distinct (key_order (races_seen fm data))
   \<and> set (key_order (races_seen fm data)) = set (map (raceName_of fm) data)
   \<and> distinct (key_order (heats_seen fm r data))
   \<and> set (key_order (heats_seen fm r data)) = set (map (heatName_of fm) (rows_of_race fm r data))
   \<and> (list_all (\<lambda>k. \<not> is_array_index k) (races_seen fm data)
        \<longrightarrow> key_order (races_seen fm data) = races_seen fm data)
   \<and> (list_all (\<lambda>k. \<not> is_array_index k) (heats_seen fm r data)
        \<longrightarrow> key_order (heats_seen fm r data) = heats_seen fm r data)"
  using assms
  by (simp add: drawViz_grouped generateHtmlTables_grouped distinct_key_order races_seen_def
      heats_seen_def key_order_no_index list_all_iff)

text \<open>The three example rows, drawn with the six fields, meet the hypotheses.\<close>

theorem sections_follow_key_order_witness:
  "(tables_DEFAULT \<lparr>tables_DEFAULT = Some example_rows, fields_DEFAULT = Some six_fields\<rparr> = Some example_rows
    \<and> example_rows \<noteq> [] \<and> six_fields \<noteq> []
    \<and> plain_keys (fields_forEach Map.empty 0 six_fields) example_rows)
   \<and> drawViz (\<lambda>e. ''push is not a function'')
        \<lparr>tables_DEFAULT = Some example_rows, fields_DEFAULT = Some six_fields\<rparr> \<lparr>innerHTML = ''previous''\<rparr>
      = Returns \<lparr>innerHTML =
          race_open ''100m Freestyle''
          @ heat_open ''Heat 1'' @ rows_html 0 [smith, jones] @ heat_close
          @ heat_open ''Heat 2'' @ rows_html 0 [lee] @ heat_close
          @ race_close\<rparr>
   \<and> key_order (races_seen (fields_forEach Map.empty 0 six_fields) example_rows) = [''100m Freestyle'']
   \<and> key_order (heats_seen (fields_forEach Map.empty 0 six_fields) ''100m Freestyle'' example_rows)
       = [''Heat 1'', ''Heat 2'']"
proof -
  have h: "example_rows \<noteq> []" "six_fields \<noteq> []"
    by (simp_all add: example_rows_def six_fields_def)
  show ?thesis
    using sections_follow_key_order [of
        "\<lparr>tables_DEFAULT = Some example_rows, fields_DEFAULT = Some six_fields\<rparr>" example_rows
        six_fields "\<lambda>e. ''push is not a function''" "\<lparr>innerHTML = ''previous''\<rparr>" "''100m Freestyle''"]
      h example_plain_keys
    by (simp add: example_races_seen example_heats_seen example_buckets example_key_order)
qed

text \<open>Two rows of one race, the first in heat 2 and the second in heat 1.\<close>

theorem first_seen_order_counterexample:
  "first_seen (map (heatName_of (fields_forEach Map.empty 0 six_fields)) descending_heat_rows)
     = [''2'', ''1'']
   \<and> drawViz (\<lambda>e. ''push is not a function'')
        \<lparr>tables_DEFAULT = Some descending_heat_rows, fields_DEFAULT = Some six_fields\<rparr>
        \<lparr>innerHTML = ''previous''\<rparr>
      = Returns \<lparr>innerHTML =
          race_open ''100m Freestyle''
          @ heat_open ''1'' @ swimmer_row 0 lee @ heat_close
          @ heat_open ''2'' @ swimmer_row 0 smith @ heat_close
          @ race_close\<rparr>"
proof -
  have "descending_heat_rows \<noteq> []" "six_fields \<noteq> []"
    by (simp_all add: descending_heat_rows_def six_fields_def)
  moreover have "generateHtmlTables [(''100m Freestyle'', [(''2'', [smith]), (''1'', [lee])])] =
          race_open ''100m Freestyle''
          @ heat_open ''1'' @ swimmer_row 0 lee @ heat_close
          @ heat_open ''2'' @ swimmer_row 0 smith @ heat_close
          @ race_close"
    by (simp add: generateHtmlTables_def own_entries_def key_eval)
  moreover have "first_seen (map (heatName_of (fields_forEach Map.empty 0 six_fields)) descending_heat_rows)
     = [''2'', ''1'']"
    by (simp add: first_seen_def six_fields_map descending_heat_rows_def heatName_of_def cell_at_def
        toString_small)
  ultimately show ?thesis
    using descending_organized by (simp add: drawViz_def Let_def lee_def)
qed



text \<open>
  C3. With no input row, the draw operation shows exactly the fixed no-data message and
  nothing else: in index.js the container holds the one paragraph, whatever the field list
  is; in original-viz.js the body holds the one \<open>no-data\<close> element. Neither output has a
  race section or a heat subsection.
\<close>

theorem empty_input_no_data:
  "drawViz error_message \<lparr>tables_DEFAULT = Some [], fields_DEFAULT = field_list\<rparr> visContainer =
     Returns (visContainer\<lparr>innerHTML :=
       ''<p class=\"text-center text-gray-500\">No data available. Please ensure dimensions are added to the visualization.</p>''\<rparr>)
   \<and> original_drawViz [] body =
     Completed [Element ''div'' [] ''no-data''
       [Text_node ''No data available. Please ensure dimensions are added to the visualization.'']]"
  by (simp add: drawViz_def Let_def no_data_html_def original_drawViz_def no_data_node_def split: option.splits)

text \<open>
  C4. The claim is that every exception raised during a draw is caught at the top level
  and shown as one error node. index.js does so (\<open>drawViz_catches_exception\<close>,
  \<open>drawViz_never_throws\<close>). The \<open>drawViz\<close> of original-viz.js has no handler: on a
  row whose heat name is \<open>constructor\<close>, \<open>groupBy\<close> throws, the exception leaves
  \<open>drawViz\<close>, and the body, emptied at the start, stays empty.
\<close>

theorem original_lets_exception_through:
  "original_drawViz inherited_heat_dimensions [Text_node ''previous''] = Propagated Push_is_not_a_function []"
  using inherited_heat_groupBy
  by (simp add: original_drawViz_def inherited_heat_dimensions_def)


text \<open>
  C6. The claim is that every row's record lies in exactly one bucket, the one keyed by the
  race and the heat of the row. What holds: in index.js, when no race or heat name is a
  property name of \<open>Object.prototype\<close>, \<open>organizeData\<close> returns the race names in
  first-seen order, each with the heat names of its rows in first-seen order, each with the
  records of exactly the rows of that race and heat, in row order; the record of every row
  is in the bucket of its own race and heat, and the sizes of the buckets add up to the
  number of rows. The \<open>groupBy\<close> of original-viz.js, applied to the heat, keys the
  buckets by the heat name alone: each bucket holds exactly the rows with that heat name,
  of whatever race. The counterexample has two rows of different races and one heat name,
  and one bucket with both.
\<close>

theorem each_record_in_one_bucket:
  fixes field_list :: "field list"
  defines "fm \<equiv> fields_forEach Map.empty 0 field_list"
  shows "(plain_keys fm data \<longrightarrow>
       (\<exists>organized. organizeData data field_list = Returns organized
          \<and> organized =
              map (\<lambda>r. (r, map (\<lambda>h. (h, bucket fm r h data)) (heats_seen fm r data)))
                (races_seen fm data)
          \<and> record_count organized = length data)
       \<and> (\<forall>row\<in>set data.
             swimmer_of fm row \<in> set (bucket fm (raceName_of fm row) (heatName_of fm row) data))
       \<and> distinct (races_seen fm data) \<and> distinct (heats_seen fm r data))
   \<and> (list_all (\<lambda>item. toString (heat item) \<notin> set object_prototype_names) items \<longrightarrow>
       (\<exists>heats. groupBy items heat = Inr heats
          \<and> heats =
              map (\<lambda>k. (k, filter (\<lambda>item. toString (heat item) = k) items))
                (first_seen (map (\<lambda>item. toString (heat item)) items))
          \<and> heat_count heats = length items)
       \<and> distinct (first_seen (map (\<lambda>item. toString (heat item)) items)))"
proof (intro conjI impI)
  assume "plain_keys fm data"
  then have "organizeData data field_list = Returns (grouped fm data)"
    by (simp add: fm_def organizeData_grouped)
  then show "\<exists>organized. organizeData data field_list = Returns organized
          \<and> organized =
              map (\<lambda>r. (r, map (\<lambda>h. (h, bucket fm r h data)) (heats_seen fm r data)))
                (races_seen fm data)
          \<and> record_count organized = length data"
    using record_count_grouped [of fm data] by (simp add: grouped_def)
next
  show "\<forall>row\<in>set data.
      swimmer_of fm row \<in> set (bucket fm (raceName_of fm row) (heatName_of fm row) data)"
    by (simp add: row_in_bucket)
next
  show "distinct (races_seen fm data)" "distinct (heats_seen fm r data)"
    by (simp_all add: races_seen_def heats_seen_def)
next
  assume "list_all (\<lambda>item. toString (heat item) \<notin> set object_prototype_names) items"
  then have "groupBy items heat = Inr (by_key heat items)"
    by (simp add: groupBy_by_key)
  then show "\<exists>heats. groupBy items heat = Inr heats
          \<and> heats =
              map (\<lambda>k. (k, filter (\<lambda>item. toString (heat item) = k) items))
                (first_seen (map (\<lambda>item. toString (heat item)) items))
          \<and> heat_count heats = length items"
    using heat_count_by_key [of heat items] by (simp add: by_key_def)
next
  show "distinct (first_seen (map (\<lambda>item. toString (heat item)) items))"
    by simp
qed

text \<open>The three example rows, as flat rows and as row objects.\<close>

theorem each_record_in_one_bucket_witness:
  "plain_keys (fields_forEach Map.empty 0 six_fields) example_rows
   \<and> organizeData example_rows six_fields =
       Returns [(''100m Freestyle'', [(''Heat 1'', [smith, jones]), (''Heat 2'', [lee])])]
   \<and> record_count [(''100m Freestyle'', [(''Heat 1'', [smith, jones]), (''Heat 2'', [lee])])]
       = length example_rows
   \<and> list_all (\<lambda>item. toString (heat item) \<notin> set object_prototype_names)
        [smith_object, jones_object, lee_object]
   \<and> groupBy [smith_object, jones_object, lee_object] heat =
       Inr [(''Heat 1'', [smith_object, jones_object]), (''Heat 2'', [lee_object])]
   \<and> heat_count [(''Heat 1'', [smith_object, jones_object]), (''Heat 2'', [lee_object])]
       = length [smith_object, jones_object, lee_object]"
proof -
  have seen: "first_seen [''Heat 1'', ''Heat 1'', ''Heat 2''] = [''Heat 1'', ''Heat 2'']"
    by (simp add: first_seen_def)
  have heats: "toString (heat smith_object) = ''Heat 1''" "toString (heat jones_object) = ''Heat 1''"
    "toString (heat lee_object) = ''Heat 2''"
    by (simp_all add: smith_object_def jones_object_def lee_object_def)
  show ?thesis
    using each_record_in_one_bucket [of six_fields example_rows "''100m Freestyle''"
        "[smith_object, jones_object, lee_object]"]
      example_plain_keys example_items_plain
    by (simp add: example_races_seen example_heats_seen example_buckets seen heats)
qed

text \<open>Two rows of different races in heats of the same name.\<close>

theorem heat_only_bucket_counterexample:
  "groupBy (map destructure two_race_dimensions) heat =
     Inr [(''Heat 1'', [smith_object, medley_lee_object])]
   \<and> toString (race smith_object) = ''100m Freestyle''
   \<and> toString (race medley_lee_object) = ''200m Medley''"
  by (simp add: two_race_destructured groupBy_def groupBy_callback_def get_prop_def
      object_prototype_names_def smith_object_def medley_lee_object_def)





text \<open>
  C9. In index.js the no-data message is also shown when the field list is undefined or
  empty, whatever the rows are.
\<close>

theorem no_fields_no_data:
  assumes "fields_DEFAULT message = None \<or> fields_DEFAULT message = Some []"
  shows "drawViz error_message message visContainer =
     Returns (visContainer\<lparr>innerHTML := no_data_html\<rparr>)"
  using assms by (auto simp: drawViz_def Let_def split: option.splits)

text \<open>The three example rows, drawn with an empty field list.\<close>

theorem no_fields_no_data_witness:
  "fields_DEFAULT \<lparr>tables_DEFAULT = Some example_rows, fields_DEFAULT = Some []\<rparr> = Some []
   \<and> example_rows \<noteq> []
   \<and> drawViz (\<lambda>e. ''push is not a function'')
        \<lparr>tables_DEFAULT = Some example_rows, fields_DEFAULT = Some []\<rparr> \<lparr>innerHTML = ''previous''\<rparr>
      = Returns \<lparr>innerHTML = no_data_html\<rparr>"
proof -
  have h: "fields_DEFAULT \<lparr>tables_DEFAULT = Some example_rows, fields_DEFAULT = Some []\<rparr> = None
    \<or> fields_DEFAULT \<lparr>tables_DEFAULT = Some example_rows, fields_DEFAULT = Some []\<rparr> = Some []"
    by simp
  show ?thesis
    using no_fields_no_data [OF h, of "\<lambda>e. ''push is not a function''" "\<lparr>innerHTML = ''previous''\<rparr>"]
    by (simp add: example_rows_def)
qed

text \<open>
  C10. The claim is that original-viz.js shows, for every non-empty input, one race title
  taken from the first row and one table per heat name, whatever the race of a row. That is
  what \<open>original_drawViz_by_key\<close> proves for the inputs whose heat names are not
  property names of \<open>Object.prototype\<close>. On a row whose heat name is \<open>toString\<close>,
  \<open>groupBy\<close> throws and nothing is shown.
\<close>

theorem inherited_heat_name_propagates:
  "original_drawViz toString_heat_dimensions body = Propagated Push_is_not_a_function []"
  by (simp add: original_drawViz_def toString_heat_dimensions_def groupBy_def destructure_def
      cell_at_def groupBy_callback_def get_prop_def object_prototype_names_def)

end
